theory Spec2Isabelle
  imports Main
begin

section \<open>Configuration constants\<close>

text \<open>
  Modelled from the spec: \<^verbatim>\<open>safedelete/config.py\<close> is not among the sources. The
  spec's data model names four visibility modes (hidden, visible, only-deleted,
  visible-by-primary-key) and five delete policies; \<^verbatim>\<open>managers.py\<close> and the tests
  import them under the names used below.
\<close>

datatype visibility =
    DELETED_INVISIBLE
  | DELETED_VISIBLE
  | DELETED_ONLY_VISIBLE
  | DELETED_VISIBLE_BY_PK

datatype delete_policy =
    NO_DELETE
  | SOFT_DELETE
  | SOFT_DELETE_CASCADE
  | HARD_DELETE
  | HARD_DELETE_NOCASCADE

section \<open>Model classes and rows\<close>

text \<open>
  A Python value as it occurs in a keyword lookup or a column: \<^verbatim>\<open>None\<close>, an
  integer or a string.
\<close>

datatype pyval = NoneV | IntV int | StrV string

type_synonym kwargs = "(string \<times> pyval) list"

text \<open>
  Modelled from the spec: the model classes of the host ORM and \<^verbatim>\<open>models.py\<close> are not
  among the sources. A model class is its name, its delete policy ("DeletePolicy:
  enumeration, immutable, attached per model class", the \<^verbatim>\<open>_safedelete_policy\<close> of the
  tests) and its fields, each with the \<^verbatim>\<open>unique\<close> flag of its declaration
  (\<^verbatim>\<open>name = models.CharField(max_length=200, unique=True)\<close>).
\<close>

record model_class =
  model_name :: string
  safedelete_policy :: delete_policy
  meta_fields :: "(string \<times> bool) list"

text \<open>
  Modelled from the spec: a stored record is its primary key, the deleted marker ("a
  nullable timestamp field on each participating record; null = alive, non-null =
  soft-deleted", the attribute \<^verbatim>\<open>deleted\<close> in \<^verbatim>\<open>managers.py\<close>), its other columns, and
  the primary keys of the records its relationship fields refer to.
\<close>

record row =
  pk :: nat
  deleted :: "nat option"
  attrs :: "(string \<times> pyval) list"
  depends_on :: "nat list"

text \<open>
  Modelled from the spec: \<^verbatim>\<open>get_delete_policy\<close> and \<^verbatim>\<open>has_unique_fields\<close> live in
  \<^verbatim>\<open>models.py\<close>, which is not among the sources. \<^verbatim>\<open>update_or_create\<close> calls the first
  for the policy attached to the model class, and the second to ask whether one of the
  model fields carries a unique constraint.
\<close>

definition get_delete_policy :: "model_class \<Rightarrow> delete_policy" where
  "get_delete_policy cls = safedelete_policy cls"

definition has_unique_fields :: "model_class \<Rightarrow> bool" where
  "has_unique_fields cls = list_ex snd (meta_fields cls)"

section \<open>The queryset\<close>

datatype qs_class = SafeDeleteQueryset | CustomQueryset string

text \<open>
  The attributes of a queryset object that \<^verbatim>\<open>managers.py\<close> reads and writes.
  \<open>qs_safedelete_force_visibility = None\<close> is the attribute not being set
  (or set to \<^verbatim>\<open>None\<close>). \<open>qs_filters\<close> and \<open>qs_excludes\<close> are the keyword
  lookups added by \<^verbatim>\<open>filter(**kwargs)\<close> and \<^verbatim>\<open>exclude(**kwargs)\<close>.
\<close>

record queryset =
  qs_class_of :: qs_class
  qs_model :: model_class
  qs_using :: "string option"
  qs_safedelete_visibility :: visibility
  qs_safedelete_visibility_field :: string
  qs_safedelete_force_visibility :: "visibility option"
  qs_filters :: "kwargs list"
  qs_excludes :: "kwargs list"

text \<open>
  Modelled from the spec: the constructor call
  \<^verbatim>\<open>self._queryset_class(self.model, using=self._db)\<close>, of a class that is not among the
  sources. A new queryset has no lookups and no forced visibility, and works in the
  hidden mode on the field \<^verbatim>\<open>pk\<close> until \<^verbatim>\<open>get_queryset\<close> overwrites both.
\<close>

definition new_queryset :: "qs_class \<Rightarrow> model_class \<Rightarrow> string option \<Rightarrow> queryset" where
  "new_queryset c mdl using =
     \<lparr> qs_class_of = c, qs_model = mdl, qs_using = using,
       qs_safedelete_visibility = DELETED_INVISIBLE,
       qs_safedelete_visibility_field = ''pk'',
       qs_safedelete_force_visibility = None,
       qs_filters = [], qs_excludes = [] \<rparr>"

section \<open>The manager (\<^verbatim>\<open>safedelete/managers.py\<close>)\<close>

record manager =
  safedelete_visibility :: visibility
  safedelete_visibility_field :: string
  queryset_class :: qs_class
  model :: model_class
  db :: "string option"

text \<open>
  \<^verbatim>\<open>SafeDeleteManager.__init__\<close> over the class attributes of lines 36-38: a
  \<^verbatim>\<open>queryset_class\<close> argument replaces the default queryset class.
\<close>

definition SafeDeleteManager :: "qs_class option \<Rightarrow> model_class \<Rightarrow> string option \<Rightarrow> manager" where
  "SafeDeleteManager queryset_class_arg mdl using =
     \<lparr> safedelete_visibility = DELETED_INVISIBLE,
       safedelete_visibility_field = ''pk'',
       queryset_class = (case queryset_class_arg of None \<Rightarrow> SafeDeleteQueryset | Some c \<Rightarrow> c),
       model = mdl, db = using \<rparr>"

text \<open>The two subclasses override the class attribute \<^verbatim>\<open>_safedelete_visibility\<close> only.\<close>

definition SafeDeleteAllManager :: "qs_class option \<Rightarrow> model_class \<Rightarrow> string option \<Rightarrow> manager" where
  "SafeDeleteAllManager queryset_class_arg mdl using =
     (SafeDeleteManager queryset_class_arg mdl using)\<lparr> safedelete_visibility := DELETED_VISIBLE \<rparr>"

definition SafeDeleteDeletedManager :: "qs_class option \<Rightarrow> model_class \<Rightarrow> string option \<Rightarrow> manager" where
  "SafeDeleteDeletedManager queryset_class_arg mdl using =
     (SafeDeleteManager queryset_class_arg mdl using)\<lparr> safedelete_visibility := DELETED_ONLY_VISIBLE \<rparr>"

definition get_queryset :: "manager \<Rightarrow> queryset" where
  "get_queryset self =
     (let queryset = new_queryset (queryset_class self) (model self) (db self);
          queryset = queryset\<lparr> qs_safedelete_visibility := safedelete_visibility self \<rparr>;
          queryset = queryset\<lparr> qs_safedelete_visibility_field := safedelete_visibility_field self \<rparr>
      in queryset)"

text \<open>
  \<^verbatim>\<open>all(**kwargs)\<close>: the keyword arguments are a dictionary from names to values,
  a value being \<^verbatim>\<open>None\<close> (\<open>None\<close>) or a visibility mode.
  \<^verbatim>\<open>kwargs.pop('force_visibility', None)\<close> reads the entry, \<^verbatim>\<open>None\<close> when absent.
\<close>

definition all :: "manager \<Rightarrow> (string \<rightharpoonup> visibility option) \<Rightarrow> queryset" where
  "all self kw =
     (let force_visibility = (case kw ''force_visibility'' of None \<Rightarrow> None | Some v \<Rightarrow> v);
          qs = get_queryset self
      in if force_visibility \<noteq> None
         then qs\<lparr> qs_safedelete_force_visibility := force_visibility \<rparr>
         else qs)"

definition all_with_deleted :: "manager \<Rightarrow> queryset" where
  "all_with_deleted self =
     all self [''force_visibility'' \<mapsto> Some DELETED_VISIBLE]"

definition deleted_only :: "manager \<Rightarrow> queryset" where
  "deleted_only self =
     all self [''force_visibility'' \<mapsto> Some DELETED_ONLY_VISIBLE]"

definition get_soft_delete_policies :: "delete_policy list" where
  "get_soft_delete_policies = [SOFT_DELETE, SOFT_DELETE_CASCADE]"

section \<open>Evaluating a queryset\<close>

text \<open>
  Modelled from the spec: \<^verbatim>\<open>safedelete/queryset.py\<close> and the host ORM are not among
  the sources. The spec's queryset wrapper "filters result rows by DeletedMarker
  according to VisibilityMode, unless explicitly forced visible"; the forced mode, when
  set, replaces the queryset's own. The docstring of \<^verbatim>\<open>SafeDeleteManager\<close> adds that
  under \<^verbatim>\<open>DELETED_VISIBLE_BY_PK\<close> deleted objects are returned when they are
  accessed by primary key, the key being named by \<^verbatim>\<open>_safedelete_visibility_field\<close>.

  What a keyword lookup \<^verbatim>\<open>filter(**kwargs)\<close> means on a row is the host ORM's business
  (exact matches, \<^verbatim>\<open>pk\<close> and \<^verbatim>\<open>id\<close> for the primary key, \<^verbatim>\<open>name__startswith\<close>,
  values of other types that it converts): it is the parameter \<open>orm\<close> of everything
  below, the host ORM's reading of a whole lookup on a row, and nothing is proved for
  one reading only. A table is the list of its rows in the order the queryset returns
  them. The related-object fetches that the spec exempts from the filter are queries of
  the host ORM's related managers and have no counterpart here.
\<close>

type_synonym lookup = "kwargs \<Rightarrow> row \<Rightarrow> bool"

definition filter_qs :: "queryset \<Rightarrow> kwargs \<Rightarrow> queryset" where
  "filter_qs qs kw =
     (let qs = (if qs_safedelete_visibility qs = DELETED_VISIBLE_BY_PK
                   \<and> qs_safedelete_visibility_field qs \<in> set (map fst kw)
                then qs\<lparr> qs_safedelete_force_visibility := Some DELETED_VISIBLE \<rparr>
                else qs)
      in qs\<lparr> qs_filters := qs_filters qs @ [kw] \<rparr>)"

definition exclude :: "queryset \<Rightarrow> kwargs \<Rightarrow> queryset" where
  "exclude qs kw = qs\<lparr> qs_excludes := qs_excludes qs @ [kw] \<rparr>"

definition effective_visibility :: "queryset \<Rightarrow> visibility" where
  "effective_visibility qs =
     (case qs_safedelete_force_visibility qs of
        Some force_visibility \<Rightarrow> force_visibility
      | None \<Rightarrow> qs_safedelete_visibility qs)"

fun row_visible :: "visibility \<Rightarrow> row \<Rightarrow> bool" where
  "row_visible DELETED_INVISIBLE r = (deleted r = None)"
| "row_visible DELETED_VISIBLE r = True"
| "row_visible DELETED_ONLY_VISIBLE r = (deleted r \<noteq> None)"
| "row_visible DELETED_VISIBLE_BY_PK r = (deleted r = None)"

definition in_results :: "lookup \<Rightarrow> queryset \<Rightarrow> row \<Rightarrow> bool" where
  "in_results orm qs r =
     (row_visible (effective_visibility qs) r
      \<and> list_all (\<lambda>kw. orm kw r) (qs_filters qs)
      \<and> list_all (\<lambda>kw. \<not> orm kw r) (qs_excludes qs))"

definition results :: "lookup \<Rightarrow> queryset \<Rightarrow> row list \<Rightarrow> row list" where
  "results orm qs rows = filter (in_results orm qs) rows"

definition first :: "lookup \<Rightarrow> queryset \<Rightarrow> row list \<Rightarrow> row option" where
  "first orm qs rows = (case results orm qs rows of [] \<Rightarrow> None | r # _ \<Rightarrow> Some r)"

text \<open>
  Modelled from the spec: \<^verbatim>\<open>save()\<close> of a model instance (\<^verbatim>\<open>models.py\<close> and the
  host ORM are not among the sources) writes the instance to the row of its primary key,
  and inserts it when the table has no such row.
\<close>

definition save :: "row \<Rightarrow> row list \<Rightarrow> row list" where
  "save obj rows =
     (if pk obj \<in> set (map pk rows)
      then map (\<lambda>r. if pk r = pk obj then obj else r) rows
      else rows @ [obj])"

section \<open>\<^verbatim>\<open>SafeDeleteManager.update_or_create\<close>\<close>

text \<open>
  Lines 113 to 121: the state of the table after the revival step, which the standard
  logic of the base manager then works on. The lookup \<^verbatim>\<open>**kwargs\<close> is handed to
  \<^verbatim>\<open>filter\<close> as it came, and \<^verbatim>\<open>exclude(deleted=None)\<close> is the lookup
  \<open>[(''deleted'', NoneV)]\<close>.
\<close>

definition revive_soft_deleted :: "lookup \<Rightarrow> manager \<Rightarrow> kwargs \<Rightarrow> row list \<Rightarrow> row list" where
  "revive_soft_deleted orm self kw rows =
     (if get_delete_policy (model self) \<in> set get_soft_delete_policies
         \<and> has_unique_fields (model self)
      then (case first orm (exclude (filter_qs (all_with_deleted self) kw) [(''deleted'', NoneV)]) rows of
              Some deleted_object \<Rightarrow> save (deleted_object\<lparr> deleted := None \<rparr>) rows
            | None \<Rightarrow> rows)
      else rows)"

text \<open>
  The whole method. \<open>super_update_or_create\<close> is \<^verbatim>\<open>models.Manager.update_or_create\<close>
  of the host ORM, a parameter: it receives \<^verbatim>\<open>defaults\<close>, the lookup and the table as
  the revival step left it.
\<close>

definition update_or_create ::
  "lookup \<Rightarrow> ('d \<Rightarrow> kwargs \<Rightarrow> row list \<Rightarrow> 'res) \<Rightarrow> manager \<Rightarrow> 'd \<Rightarrow> kwargs \<Rightarrow> row list \<Rightarrow> 'res" where
  "update_or_create orm super_update_or_create self defaults kw rows =
     super_update_or_create defaults kw (revive_soft_deleted orm self kw rows)"

section \<open>The model mixin\<close>

text \<open>
  Modelled from the spec: \<^verbatim>\<open>safedelete/models.py\<close> (\<^verbatim>\<open>delete\<close>, \<^verbatim>\<open>undelete\<close>,
  \<^verbatim>\<open>validate_unique\<close>) is not among the sources. The spec, section 4.3:
  "delete() dispatches on DeletePolicy: NO_DELETE fails the operation;
  HARD_DELETE/HARD_DELETE_NOCASCADE remove the row (the latter without touching
  dependents); SOFT_DELETE/SOFT_DELETE_CASCADE set DeletedMarker, the cascade variant
  propagating the same marker-set to dependent records reachable via relationship
  fields. undelete() clears the marker, recursively for cascade policy." Section 7:
  "Deleting a NO_DELETE-policy record fails with a policy-violation error. Uniqueness
  validation must consider soft-deleted rows."
\<close>

datatype error = PolicyViolation | ValidationError

text \<open>
  The records reachable from \<open>found\<close> through relationship fields: each round adds the
  rows that refer to a record already found, until a round adds nothing.
\<close>

function reachable :: "row list \<Rightarrow> nat list \<Rightarrow> nat list" where
  "reachable rows found =
     (let new = map pk (filter (\<lambda>r. pk r \<notin> set found
                                   \<and> list_ex (\<lambda>p. p \<in> set found) (depends_on r)) rows)
      in if new = [] then found else reachable rows (found @ new))"
  by pat_completeness auto
termination
proof (relation "measure (\<lambda>(rows, found). card (pk ` set rows - set found))")
  show "wf (measure (\<lambda>(rows, found). card (pk ` set rows - set found)))"
    by simp
next
  fix rows :: "row list" and found new :: "nat list"
  assume new: "new = map pk (filter (\<lambda>r. pk r \<notin> set found
      \<and> list_ex (\<lambda>p. p \<in> set found) (depends_on r)) rows)" and nonempty: "new \<noteq> []"
  define x where "x = hd new"
  from nonempty have x: "x \<in> set new"
    unfolding x_def by (rule hd_in_set)
  with new have "x \<in> pk ` set rows - set found"
    by auto
  moreover from x have "x \<notin> pk ` set rows - set (found @ new)"
    by simp
  ultimately have "pk ` set rows - set (found @ new) \<subset> pk ` set rows - set found"
    by auto
  then have "card (pk ` set rows - set (found @ new)) < card (pk ` set rows - set found)"
    by (intro psubset_card_mono) simp_all
  then show "((rows, found @ new), (rows, found))
      \<in> measure (\<lambda>(rows, found). card (pk ` set rows - set found))"
    by simp
qed

declare reachable.simps [simp del]

definition cascade :: "row list \<Rightarrow> row \<Rightarrow> nat list" where
  "cascade rows obj = reachable rows [pk obj]"

definition mark :: "nat list \<Rightarrow> nat option \<Rightarrow> row list \<Rightarrow> row list" where
  "mark pks marker rows =
     map (\<lambda>r. if pk r \<in> set pks then r\<lparr> deleted := marker \<rparr> else r) rows"

text \<open>
  \<^verbatim>\<open>delete()\<close> at time \<open>now\<close> on a record of class \<open>cls\<close>: the outcome (\<open>Inl\<close> the
  error raised) and the table afterwards.
\<close>

definition delete :: "model_class \<Rightarrow> nat \<Rightarrow> row \<Rightarrow> row list \<Rightarrow> (error + unit) \<times> row list" where
  "delete cls now obj rows =
     (case get_delete_policy cls of
        NO_DELETE \<Rightarrow> (Inl PolicyViolation, rows)
      | HARD_DELETE \<Rightarrow> (Inr (), filter (\<lambda>r. pk r \<notin> set (cascade rows obj)) rows)
      | HARD_DELETE_NOCASCADE \<Rightarrow> (Inr (), filter (\<lambda>r. pk r \<noteq> pk obj) rows)
      | SOFT_DELETE \<Rightarrow> (Inr (), mark [pk obj] (Some now) rows)
      | SOFT_DELETE_CASCADE \<Rightarrow> (Inr (), mark (cascade rows obj) (Some now) rows))"

definition undelete :: "model_class \<Rightarrow> row \<Rightarrow> row list \<Rightarrow> row list" where
  "undelete cls obj rows =
     (if get_delete_policy cls = SOFT_DELETE_CASCADE
      then mark (cascade rows obj) None rows
      else mark [pk obj] None rows)"

text \<open>
  \<^verbatim>\<open>validate_unique()\<close> of an instance with primary key \<open>self_pk\<close> (\<open>None\<close> when it is
  not saved yet) and columns \<open>self_attrs\<close>: every stored row but the instance's own is
  compared, soft-deleted or not, on every unique field that has a value.
\<close>

definition validate_unique ::
  "model_class \<Rightarrow> nat option \<Rightarrow> (string \<times> pyval) list \<Rightarrow> row list \<Rightarrow> error + unit" where
  "validate_unique cls self_pk self_attrs rows =
     (if list_ex (\<lambda>(f, unique). unique
            \<and> map_of self_attrs f \<noteq> None \<and> map_of self_attrs f \<noteq> Some NoneV
            \<and> list_ex (\<lambda>r. Some (pk r) \<noteq> self_pk \<and> map_of (attrs r) f = map_of self_attrs f) rows)
          (meta_fields cls)
      then Inl ValidationError
      else Inr ())"

section \<open>The models of the test suite\<close>

text \<open>
  \<^verbatim>\<open>Category\<close> and \<^verbatim>\<open>VeryImportant\<close> of \<^verbatim>\<open>tests/test_legacy.py\<close>, the manager
  \<^verbatim>\<open>CategoryManager\<close> (a \<^verbatim>\<open>SafeDeleteManager\<close> whose \<^verbatim>\<open>_safedelete_visibility\<close> is
  \<^verbatim>\<open>DELETED_VISIBLE_BY_PK\<close>), and a table of categories: the three of \<^verbatim>\<open>setUp\<close> and
  the one \<^verbatim>\<open>test_validate_unique\<close> creates and deletes.
\<close>

definition Category :: model_class where
  "Category = \<lparr> model_name = ''Category'', safedelete_policy = SOFT_DELETE,
     meta_fields = [(''id'', False), (''deleted'', False), (''name'', True)] \<rparr>"

definition VeryImportant :: model_class where
  "VeryImportant = \<lparr> model_name = ''VeryImportant'', safedelete_policy = NO_DELETE,
     meta_fields = [(''id'', False), (''deleted'', False), (''name'', False)] \<rparr>"

definition CategoryManager :: manager where
  "CategoryManager =
     (SafeDeleteManager None Category None)\<lparr> safedelete_visibility := DELETED_VISIBLE_BY_PK \<rparr>"

definition named :: "nat \<Rightarrow> nat option \<Rightarrow> string \<Rightarrow> row" where
  "named k d n = \<lparr> pk = k, deleted = d, attrs = [(''name'', StrV n)], depends_on = [] \<rparr>"

definition categories :: "row list" where
  "categories =
     [named 1 None ''category 0'', named 2 (Some 5) ''category 1'',
      named 3 None ''category 2'', named 4 (Some 7) ''test'']"

text \<open>
  A model with the cascading soft-delete policy, a unique \<^verbatim>\<open>name\<close>, a \<^verbatim>\<open>color\<close> that is
  not unique and a relationship field: swatch 2 refers to swatch 1 and swatch 3 to
  swatch 2.
\<close>

definition Swatch :: model_class where
  "Swatch = \<lparr> model_name = ''Swatch'', safedelete_policy = SOFT_DELETE_CASCADE,
     meta_fields = [(''id'', False), (''deleted'', False), (''name'', True), (''color'', False)] \<rparr>"

definition swatch :: "nat \<Rightarrow> nat option \<Rightarrow> string \<Rightarrow> string \<Rightarrow> nat list \<Rightarrow> row" where
  "swatch k d n c refs =
     \<lparr> pk = k, deleted = d, attrs = [(''name'', StrV n), (''color'', StrV c)], depends_on = refs \<rparr>"

definition swatches :: "row list" where
  "swatches =
     [swatch 1 None ''a'' ''red'' [], swatch 2 (Some 5) ''b'' ''green'' [1],
      swatch 3 (Some 6) ''c'' ''green'' [2], swatch 4 None ''d'' ''green'' []]"

text \<open>
  One reading of keyword lookups, for the tables above: \<^verbatim>\<open>pk\<close> and \<^verbatim>\<open>id\<close> name the
  primary key, \<^verbatim>\<open>deleted\<close> the marker and every other name a column of the row; a name
  that ends in \<^verbatim>\<open>__startswith\<close> asks for a prefix of a string column, any other name
  for the very value; a lookup holds when each of its entries does.
\<close>

definition column_value :: "row \<Rightarrow> string \<Rightarrow> pyval option" where
  "column_value r k =
     (if k = ''pk'' \<or> k = ''id'' then Some (IntV (int (pk r)))
      else if k = ''deleted'' then Some (case deleted r of None \<Rightarrow> NoneV | Some t \<Rightarrow> IntV (int t))
      else map_of (attrs r) k)"

definition startswith_column :: "string \<Rightarrow> string option" where
  "startswith_column k =
     (if length ''__startswith'' \<le> length k
         \<and> drop (length k - length ''__startswith'') k = ''__startswith''
      then Some (take (length k - length ''__startswith'') k)
      else None)"

definition entry_holds :: "row \<Rightarrow> string \<times> pyval \<Rightarrow> bool" where
  "entry_holds r e =
     (case startswith_column (fst e) of
        Some c \<Rightarrow>
          (case (column_value r c, snd e) of
             (Some (StrV s), StrV p) \<Rightarrow> take (length p) s = p
           | _ \<Rightarrow> False)
      | None \<Rightarrow> column_value r (fst e) = Some (snd e))"

definition example_orm :: lookup where
  "example_orm kw r = list_all (entry_holds r) kw"

section \<open>Facts about querysets\<close>

lemma get_queryset_attrs [simp]:
  "qs_filters (get_queryset m) = []"
  "qs_excludes (get_queryset m) = []"
  "qs_safedelete_force_visibility (get_queryset m) = None"
  "qs_safedelete_visibility (get_queryset m) = safedelete_visibility m"
  "qs_safedelete_visibility_field (get_queryset m) = safedelete_visibility_field m"
  by (simp_all add: get_queryset_def new_queryset_def)

lemma all_attrs [simp]:
  "qs_filters (all m kw) = []"
  "qs_excludes (all m kw) = []"
  "qs_safedelete_visibility (all m kw) = safedelete_visibility m"
  "qs_safedelete_visibility_field (all m kw) = safedelete_visibility_field m"
  by (simp_all add: all_def Let_def)

lemma all_force [simp]:
  "qs_safedelete_force_visibility (all m kw) =
     (case kw ''force_visibility'' of None \<Rightarrow> None | Some v \<Rightarrow> v)"
  by (simp add: all_def Let_def)

lemma in_results_unfiltered:
  "qs_filters qs = [] \<Longrightarrow> qs_excludes qs = [] \<Longrightarrow>
   in_results orm qs = row_visible (effective_visibility qs)"
  by (rule ext) (simp add: in_results_def)

lemma filter_only_deleted:
  "filter (row_visible DELETED_ONLY_VISIBLE) rows = filter (\<lambda>r. deleted r \<noteq> None) rows"
  by (induction rows) auto

lemma filter_with_deleted: "filter (row_visible DELETED_VISIBLE) rows = rows"
  by (induction rows) auto

lemma filter_alive:
  "filter (row_visible DELETED_INVISIBLE) rows = filter (\<lambda>r. deleted r = None) rows"
  by (induction rows) auto

lemma default_results:
  "results orm (all (SafeDeleteManager qc mdl u) Map.empty) rows = filter (\<lambda>r. deleted r = None) rows"
  by (simp add: results_def in_results_unfiltered effective_visibility_def SafeDeleteManager_def
      filter_alive)

lemma first_find: "first orm qs rows = find (in_results orm qs) rows"
  unfolding first_def results_def by (induction rows) auto

lemma in_results_revive_query:
  assumes "\<And>r. orm [(''deleted'', NoneV)] r = (deleted r = None)"
  shows "in_results orm (exclude (filter_qs (all_with_deleted m) kw) [(''deleted'', NoneV)]) =
   (\<lambda>r. deleted r \<noteq> None \<and> orm kw r)"
  by (rule ext)
     (auto simp: in_results_def exclude_def filter_qs_def all_with_deleted_def
        effective_visibility_def Let_def assms)

lemma revive_soft_deleted_find:
  assumes "\<And>r. orm [(''deleted'', NoneV)] r = (deleted r = None)"
  shows "revive_soft_deleted orm m kw rows =
     (if get_delete_policy (model m) \<in> set get_soft_delete_policies \<and> has_unique_fields (model m)
      then (case find (\<lambda>r. deleted r \<noteq> None \<and> orm kw r) rows of
              Some r \<Rightarrow> save (r\<lparr> deleted := None \<rparr>) rows
            | None \<Rightarrow> rows)
      else rows)"
  by (simp add: revive_soft_deleted_def first_find in_results_revive_query [of orm, OF assms])

lemma example_orm_null_marker: "example_orm [(''deleted'', NoneV)] r = (deleted r = None)"
  by (simp add: example_orm_def entry_holds_def startswith_column_def column_value_def
      split: option.splits)

lemma save_existing:
  assumes "distinct (map pk rows)" "j < length rows" "pk obj = pk (rows ! j)"
  shows "save obj rows = rows[j := obj]"
proof -
  have mem: "pk obj \<in> set (map pk rows)"
    using assms(2,3) by (metis length_map nth_map nth_mem)
  have "map (\<lambda>r. if pk r = pk obj then obj else r) rows = rows[j := obj]"
  proof (rule nth_equalityI)
    show "length (map (\<lambda>r. if pk r = pk obj then obj else r) rows) = length (rows[j := obj])"
      by simp
  next
    fix i assume "i < length (map (\<lambda>r. if pk r = pk obj then obj else r) rows)"
    then have i: "i < length rows" by simp
    have "pk (rows ! i) = pk (rows ! j) \<longleftrightarrow> i = j"
      using assms(1,2) i by (metis length_map nth_eq_iff_index_eq nth_map)
    then show "map (\<lambda>r. if pk r = pk obj then obj else r) rows ! i = rows[j := obj] ! i"
      using i assms(2,3) by (auto simp: nth_list_update)
  qed
  with mem show ?thesis by (simp add: save_def)
qed

section \<open>Facts about the model mixin\<close>

lemma reachable_mono: "set found \<subseteq> set (reachable rows found)"
proof (induction rows found rule: reachable.induct)
  case (1 rows found)
  let ?new = "map pk (filter (\<lambda>r. pk r \<notin> set found
      \<and> list_ex (\<lambda>p. p \<in> set found) (depends_on r)) rows)"
  show ?case
  proof (cases "?new = []")
    case True
    then show ?thesis by (subst reachable.simps) (simp add: Let_def)
  next
    case False
    have "set found \<subseteq> set (found @ ?new)" by simp
    also have "\<dots> \<subseteq> set (reachable rows (found @ ?new))"
      using False by (intro "1.IH") simp_all
    also have "reachable rows (found @ ?new) = reachable rows found"
      using False by (subst (2) reachable.simps) (simp add: Let_def)
    finally show ?thesis .
  qed
qed

lemma reachable_closed:
  assumes "r \<in> set rows" and "p \<in> set (depends_on r)" and "p \<in> set (reachable rows found)"
  shows "pk r \<in> set (reachable rows found)"
  using assms
proof (induction rows found rule: reachable.induct)
  case (1 rows found)
  let ?new = "map pk (filter (\<lambda>r. pk r \<notin> set found
      \<and> list_ex (\<lambda>p. p \<in> set found) (depends_on r)) rows)"
  show ?case
  proof (cases "?new = []")
    case True
    then have eq: "reachable rows found = found"
      by (subst reachable.simps) (simp add: Let_def)
    with "1.prems" have "p \<in> set found" by simp
    with "1.prems"(1,2) True have "pk r \<in> set found"
      by (auto simp: filter_empty_conv list_ex_iff)
    with eq show ?thesis by simp
  next
    case False
    then have eq: "reachable rows found = reachable rows (found @ ?new)"
      by (subst reachable.simps) (simp add: Let_def)
    from False "1.prems" show ?thesis
      unfolding eq by (intro "1.IH") simp_all
  qed
qed

lemma pk_in_cascade: "pk obj \<in> set (cascade rows obj)"
  using reachable_mono [of "[pk obj]" rows] by (simp add: cascade_def)

lemma mark_mem:
  "r \<in> set rows \<Longrightarrow> pk r \<in> set pks \<Longrightarrow> r\<lparr> deleted := marker \<rparr> \<in> set (mark pks marker rows)"
  by (force simp: mark_def image_iff)

lemmas example_defs =
  Category_def VeryImportant_def CategoryManager_def named_def categories_def
  SafeDeleteManager_def SafeDeleteAllManager_def SafeDeleteDeletedManager_def

section \<open>The manager's query entry points\<close>

text \<open>
  Claim C5. Every manager has one of the four visibility modes \<^verbatim>\<open>DELETED_INVISIBLE\<close>,
  \<^verbatim>\<open>DELETED_VISIBLE\<close>, \<^verbatim>\<open>DELETED_ONLY_VISIBLE\<close> and \<^verbatim>\<open>DELETED_VISIBLE_BY_PK\<close>; a
  \<^verbatim>\<open>SafeDeleteManager\<close> has \<^verbatim>\<open>DELETED_INVISIBLE\<close>, a \<^verbatim>\<open>SafeDeleteAllManager\<close> has
  \<^verbatim>\<open>DELETED_VISIBLE\<close> and a \<^verbatim>\<open>SafeDeleteDeletedManager\<close> has \<^verbatim>\<open>DELETED_ONLY_VISIBLE\<close>.
\<close>

theorem manager_visibility_modes:
  "safedelete_visibility m \<in>
     {DELETED_INVISIBLE, DELETED_VISIBLE, DELETED_ONLY_VISIBLE, DELETED_VISIBLE_BY_PK}
   \<and> safedelete_visibility (SafeDeleteManager qc mdl u) = DELETED_INVISIBLE
   \<and> safedelete_visibility (SafeDeleteAllManager qc mdl u) = DELETED_VISIBLE
   \<and> safedelete_visibility (SafeDeleteDeletedManager qc mdl u) = DELETED_ONLY_VISIBLE"
  by (cases "safedelete_visibility m")
     (simp_all add: SafeDeleteManager_def SafeDeleteAllManager_def SafeDeleteDeletedManager_def)

theorem manager_visibility_modes_witness:
  "safedelete_visibility CategoryManager = DELETED_VISIBLE_BY_PK
   \<and> safedelete_visibility (SafeDeleteManager None Category None) = DELETED_INVISIBLE
   \<and> safedelete_visibility (SafeDeleteAllManager None Category None) = DELETED_VISIBLE
   \<and> safedelete_visibility (SafeDeleteDeletedManager None Category None) = DELETED_ONLY_VISIBLE"
  using manager_visibility_modes [of CategoryManager None Category None]
  by (simp add: CategoryManager_def)

text \<open>
  Claim C4. The queryset that \<^verbatim>\<open>get_queryset\<close> returns carries the visibility mode and
  the visibility field of the manager that made it; no visibility is forced on it, so
  the manager's mode is the one in effect and decides which rows the queryset returns.
\<close>

theorem get_queryset_carries_manager_visibility:
  "qs_safedelete_visibility (get_queryset m) = safedelete_visibility m
   \<and> qs_safedelete_visibility_field (get_queryset m) = safedelete_visibility_field m
   \<and> effective_visibility (get_queryset m) = safedelete_visibility m
   \<and> results orm (get_queryset m) rows = filter (row_visible (safedelete_visibility m)) rows"
  by (simp add: effective_visibility_def results_def in_results_unfiltered)

theorem get_queryset_carries_manager_visibility_witness:
  "qs_safedelete_visibility (get_queryset CategoryManager) = DELETED_VISIBLE_BY_PK
   \<and> qs_safedelete_visibility_field (get_queryset CategoryManager) = ''pk''
   \<and> results example_orm (get_queryset CategoryManager) categories =
       [named 1 None ''category 0'', named 3 None ''category 2'']"
  using get_queryset_carries_manager_visibility [of CategoryManager example_orm categories]
  by (simp add: example_defs)

text \<open>
  Claim C3, as the code has it. A \<^verbatim>\<open>SafeDeleteManager\<close> has three named query entry
  points: the default one (\<^verbatim>\<open>get_queryset\<close>, and \<^verbatim>\<open>all()\<close> without arguments, which
  returns the same queryset) works in the hidden mode \<^verbatim>\<open>DELETED_INVISIBLE\<close>;
  \<^verbatim>\<open>all_with_deleted()\<close> forces \<^verbatim>\<open>DELETED_VISIBLE\<close> on the queryset it returns and
  \<^verbatim>\<open>deleted_only()\<close> forces \<^verbatim>\<open>DELETED_ONLY_VISIBLE\<close>; the three querysets differ from
  one another. They are not the only entry points: \<^verbatim>\<open>all(force_visibility=v)\<close> is public
  too and forces any mode \<open>v\<close> on the queryset it returns.
\<close>

theorem manager_entry_points:
  "qs_safedelete_visibility (get_queryset (SafeDeleteManager qc mdl u)) = DELETED_INVISIBLE
   \<and> qs_safedelete_force_visibility (get_queryset (SafeDeleteManager qc mdl u)) = None
   \<and> all (SafeDeleteManager qc mdl u) Map.empty = get_queryset (SafeDeleteManager qc mdl u)
   \<and> effective_visibility (all (SafeDeleteManager qc mdl u) Map.empty) = DELETED_INVISIBLE
   \<and> qs_safedelete_force_visibility (all_with_deleted (SafeDeleteManager qc mdl u))
        = Some DELETED_VISIBLE
   \<and> effective_visibility (all_with_deleted (SafeDeleteManager qc mdl u)) = DELETED_VISIBLE
   \<and> qs_safedelete_force_visibility (deleted_only (SafeDeleteManager qc mdl u))
        = Some DELETED_ONLY_VISIBLE
   \<and> effective_visibility (deleted_only (SafeDeleteManager qc mdl u)) = DELETED_ONLY_VISIBLE
   \<and> distinct [all (SafeDeleteManager qc mdl u) Map.empty,
                all_with_deleted (SafeDeleteManager qc mdl u),
                deleted_only (SafeDeleteManager qc mdl u)]
   \<and> qs_safedelete_force_visibility
        (all (SafeDeleteManager qc mdl u) (kw(''force_visibility'' \<mapsto> Some v))) = Some v
   \<and> effective_visibility
        (all (SafeDeleteManager qc mdl u) (kw(''force_visibility'' \<mapsto> Some v))) = v"
  by (simp add: all_with_deleted_def deleted_only_def effective_visibility_def all_def
      get_queryset_def new_queryset_def SafeDeleteManager_def)

theorem manager_entry_points_witness:
  "results example_orm (all (SafeDeleteManager None Category None) Map.empty) categories
     = [named 1 None ''category 0'', named 3 None ''category 2'']
   \<and> results example_orm (all_with_deleted (SafeDeleteManager None Category None)) categories
     = categories
   \<and> results example_orm (deleted_only (SafeDeleteManager None Category None)) categories
     = [named 2 (Some 5) ''category 1'', named 4 (Some 7) ''test'']
   \<and> effective_visibility (all (SafeDeleteManager None Category None)
        [''force_visibility'' \<mapsto> Some DELETED_VISIBLE_BY_PK]) = DELETED_VISIBLE_BY_PK"
  using manager_entry_points [of None Category None Map.empty DELETED_VISIBLE_BY_PK]
  by (simp add: results_def in_results_unfiltered all_with_deleted_def deleted_only_def
      effective_visibility_def categories_def named_def)

text \<open>
  The claim as it was stated, with exactly three entry points, fails:
  \<^verbatim>\<open>all(force_visibility=DELETED_INVISIBLE)\<close> returns a queryset that is none of the three
  and has \<^verbatim>\<open>DELETED_INVISIBLE\<close> forced on it, and through a \<^verbatim>\<open>SafeDeleteAllManager\<close> it
  hides the soft-deleted rows that this manager's default entry point returns.
\<close>

theorem manager_fourth_entry_point:
  "qs_safedelete_force_visibility (all (SafeDeleteManager None Category None)
       [''force_visibility'' \<mapsto> Some DELETED_INVISIBLE]) = Some DELETED_INVISIBLE
   \<and> all (SafeDeleteManager None Category None) [''force_visibility'' \<mapsto> Some DELETED_INVISIBLE]
       \<noteq> all (SafeDeleteManager None Category None) Map.empty
   \<and> all (SafeDeleteManager None Category None) [''force_visibility'' \<mapsto> Some DELETED_INVISIBLE]
       \<noteq> all_with_deleted (SafeDeleteManager None Category None)
   \<and> all (SafeDeleteManager None Category None) [''force_visibility'' \<mapsto> Some DELETED_INVISIBLE]
       \<noteq> deleted_only (SafeDeleteManager None Category None)
   \<and> results example_orm (all (SafeDeleteAllManager None Category None) Map.empty) categories
       = categories
   \<and> results example_orm (all (SafeDeleteAllManager None Category None)
         [''force_visibility'' \<mapsto> Some DELETED_INVISIBLE]) categories
       = [named 1 None ''category 0'', named 3 None ''category 2'']"
  by (simp add: results_def in_results_unfiltered all_with_deleted_def deleted_only_def
      effective_visibility_def all_def get_queryset_def new_queryset_def
      SafeDeleteManager_def SafeDeleteAllManager_def categories_def named_def)

text \<open>
  Claim C9. Forced visibility takes precedence over the manager's own mode: whatever
  the manager's \<^verbatim>\<open>_safedelete_visibility\<close>, \<^verbatim>\<open>all_with_deleted()\<close> returns a queryset
  with forced visibility \<^verbatim>\<open>DELETED_VISIBLE\<close>, which returns every row, and
  \<^verbatim>\<open>deleted_only()\<close> one with forced visibility \<^verbatim>\<open>DELETED_ONLY_VISIBLE\<close>, which returns
  the soft-deleted rows only (also on a \<^verbatim>\<open>SafeDeleteAllManager\<close>); \<^verbatim>\<open>all()\<close> called
  without a \<^verbatim>\<open>force_visibility\<close> argument leaves the forced visibility unset, and the
  manager's own mode is in effect.
\<close>

theorem forced_visibility_takes_precedence:
  "qs_safedelete_force_visibility (all_with_deleted m) = Some DELETED_VISIBLE
   \<and> qs_safedelete_force_visibility (deleted_only m) = Some DELETED_ONLY_VISIBLE
   \<and> effective_visibility (all_with_deleted m) = DELETED_VISIBLE
   \<and> effective_visibility (deleted_only m) = DELETED_ONLY_VISIBLE
   \<and> results orm (all_with_deleted m) rows = rows
   \<and> results orm (deleted_only m) rows = filter (\<lambda>r. deleted r \<noteq> None) rows
   \<and> results orm (deleted_only (SafeDeleteAllManager qc mdl u)) rows
        = filter (\<lambda>r. deleted r \<noteq> None) rows
   \<and> qs_safedelete_force_visibility (all m (kw(''force_visibility'' := None))) = None
   \<and> effective_visibility (all m (kw(''force_visibility'' := None))) = safedelete_visibility m"
  by (simp add: all_with_deleted_def deleted_only_def effective_visibility_def results_def
      in_results_unfiltered filter_only_deleted filter_with_deleted)

theorem forced_visibility_takes_precedence_witness:
  "results example_orm (deleted_only (SafeDeleteAllManager None Category None)) categories
     = [named 2 (Some 5) ''category 1'', named 4 (Some 7) ''test'']
   \<and> results example_orm (all_with_deleted (SafeDeleteDeletedManager None Category None)) categories
     = categories
   \<and> results example_orm (all (SafeDeleteDeletedManager None Category None) Map.empty) categories
     = [named 2 (Some 5) ''category 1'', named 4 (Some 7) ''test'']"
  using forced_visibility_takes_precedence
    [of "SafeDeleteDeletedManager None Category None" example_orm categories None Category None
      Map.empty]
  by (simp add: results_def in_results_unfiltered effective_visibility_def
      SafeDeleteDeletedManager_def categories_def named_def)




section \<open>Reviving a soft-deleted row in \<^verbatim>\<open>update_or_create\<close>\<close>

text \<open>
  Claim C1. Whatever the host ORM's reading \<open>orm\<close> of keyword lookups, provided it reads
  \<^verbatim>\<open>deleted=None\<close> as the marker being null: when the model's delete policy is
  \<^verbatim>\<open>SOFT_DELETE\<close> or \<^verbatim>\<open>SOFT_DELETE_CASCADE\<close>, the model has a unique field and some
  soft-deleted row matches the lookup, then \<^verbatim>\<open>update_or_create\<close> revives a row: the
  first soft-deleted row \<open>r\<close> that matches the lookup is saved with its marker set to
  null, and the standard \<^verbatim>\<open>update_or_create\<close> of the base manager runs on the table that
  holds the revived row. In every other case the standard \<^verbatim>\<open>update_or_create\<close> runs on
  the table as it was.
\<close>

theorem update_or_create_revives_soft_deleted:
  assumes "\<And>r. orm [(''deleted'', NoneV)] r = (deleted r = None)"
  shows "(if get_delete_policy (model m) \<in> set get_soft_delete_policies
       \<and> has_unique_fields (model m)
       \<and> list_ex (\<lambda>r. deleted r \<noteq> None \<and> orm kw r) rows
    then \<exists>r. r \<in> set rows \<and> deleted r \<noteq> None \<and> orm kw r
           \<and> find (\<lambda>r. deleted r \<noteq> None \<and> orm kw r) rows = Some r
           \<and> r\<lparr> deleted := None \<rparr> \<in> set (save (r\<lparr> deleted := None \<rparr>) rows)
           \<and> update_or_create orm super_update_or_create m defaults kw rows =
               super_update_or_create defaults kw (save (r\<lparr> deleted := None \<rparr>) rows)
    else update_or_create orm super_update_or_create m defaults kw rows =
           super_update_or_create defaults kw rows)"
proof (cases "find (\<lambda>r. deleted r \<noteq> None \<and> orm kw r) rows")
  case None
  then have "\<not> list_ex (\<lambda>r. deleted r \<noteq> None \<and> orm kw r) rows"
    by (simp add: find_None_iff list_ex_iff)
  with None show ?thesis
    by (simp add: update_or_create_def revive_soft_deleted_find [of orm, OF assms])
next
  case (Some r)
  then obtain j where j: "j < length rows" "rows ! j = r" "deleted r \<noteq> None \<and> orm kw r"
    by (auto simp: find_Some_iff)
  then have mem: "r \<in> set rows"
    by auto
  then have ex: "list_ex (\<lambda>r. deleted r \<noteq> None \<and> orm kw r) rows"
    using j(3) by (auto simp: list_ex_iff)
  have "r\<lparr> deleted := None \<rparr> \<in> set (save (r\<lparr> deleted := None \<rparr>) rows)"
    using mem by (auto simp: save_def image_iff)
  with Some mem ex j(3) show ?thesis
    by (auto simp: update_or_create_def revive_soft_deleted_find [of orm, OF assms])
qed

theorem update_or_create_revives_soft_deleted_witness:
  "(\<forall>r. example_orm [(''deleted'', NoneV)] r = (deleted r = None))
   \<and> update_or_create example_orm (\<lambda>(defaults :: unit) kw rows. rows) CategoryManager ()
        [(''id'', IntV 4)] categories
     = [named 1 None ''category 0'', named 2 (Some 5) ''category 1'',
        named 3 None ''category 2'', named 4 None ''test'']
   \<and> update_or_create example_orm (\<lambda>(defaults :: unit) kw rows. rows) CategoryManager ()
        [(''name__startswith'', StrV ''te'')] categories
     = [named 1 None ''category 0'', named 2 (Some 5) ''category 1'',
        named 3 None ''category 2'', named 4 None ''test'']
   \<and> update_or_create example_orm (\<lambda>(defaults :: unit) kw rows. rows) CategoryManager ()
        [(''name'', StrV ''category 0'')] categories
     = categories"
proof -
  have null: "example_orm [(''deleted'', NoneV)] r = (deleted r = None)" for r
    by (rule example_orm_null_marker)
  have id4: "find (\<lambda>r. deleted r \<noteq> None \<and> example_orm [(''id'', IntV 4)] r) categories
      = Some (named 4 (Some 7) ''test'')"
    by (simp add: categories_def named_def example_orm_def entry_holds_def
        startswith_column_def column_value_def)
  have te: "find (\<lambda>r. deleted r \<noteq> None \<and> example_orm [(''name__startswith'', StrV ''te'')] r)
      categories = Some (named 4 (Some 7) ''test'')"
    by (simp add: categories_def named_def example_orm_def entry_holds_def
        startswith_column_def column_value_def)
  have c0: "find (\<lambda>r. deleted r \<noteq> None \<and> example_orm [(''name'', StrV ''category 0'')] r)
      categories = None"
    by (simp add: categories_def named_def example_orm_def entry_holds_def
        startswith_column_def column_value_def)
  have policy: "get_delete_policy (model CategoryManager) \<in> set get_soft_delete_policies"
    "has_unique_fields (model CategoryManager)"
    by (simp_all add: example_defs get_delete_policy_def get_soft_delete_policies_def
        has_unique_fields_def)
  have saved: "save ((named 4 (Some 7) ''test'')\<lparr> deleted := None \<rparr>) categories
     = [named 1 None ''category 0'', named 2 (Some 5) ''category 1'',
        named 3 None ''category 2'', named 4 None ''test'']"
    by (simp add: save_def categories_def named_def)
  have r1: "revive_soft_deleted example_orm CategoryManager [(''id'', IntV 4)] categories
     = [named 1 None ''category 0'', named 2 (Some 5) ''category 1'',
        named 3 None ''category 2'', named 4 None ''test'']"
    unfolding revive_soft_deleted_find [of example_orm, OF null] id4
    using policy saved by simp
  have r2: "revive_soft_deleted example_orm CategoryManager [(''name__startswith'', StrV ''te'')]
       categories
     = [named 1 None ''category 0'', named 2 (Some 5) ''category 1'',
        named 3 None ''category 2'', named 4 None ''test'']"
    unfolding revive_soft_deleted_find [of example_orm, OF null] te
    using policy saved by simp
  have r3: "revive_soft_deleted example_orm CategoryManager [(''name'', StrV ''category 0'')]
       categories = categories"
    unfolding revive_soft_deleted_find [of example_orm, OF null] c0
    by simp
  show ?thesis
    using null r1 r2 r3
      update_or_create_revives_soft_deleted
        [of example_orm CategoryManager "[(''id'', IntV 4)]" categories
          "\<lambda>(defaults :: unit) kw rows. rows" "()", OF null]
    by (simp add: update_or_create_def)
qed

text \<open>
  Claim C10. \<^verbatim>\<open>update_or_create\<close> revives at most one row, whatever the host ORM's
  reading \<open>orm\<close> of keyword lookups, provided it reads \<^verbatim>\<open>deleted=None\<close> as the marker
  being null. On a table whose primary keys are distinct: with a soft-delete policy and
  a unique field, when soft-deleted rows match the lookup, the table handed to the
  standard logic is the old one with the first such row, at position \<open>j\<close>, revived, and
  every other row as it was; when no soft-deleted row matches, or the model has no
  unique field or another delete policy, the table is unchanged.
\<close>

theorem update_or_create_revives_at_most_one:
  assumes "\<And>r. orm [(''deleted'', NoneV)] r = (deleted r = None)"
      and "distinct (map pk rows)"
  shows "update_or_create orm super_update_or_create m defaults kw rows =
           super_update_or_create defaults kw (revive_soft_deleted orm m kw rows)
    \<and> (if get_delete_policy (model m) \<in> set get_soft_delete_policies \<and> has_unique_fields (model m)
       then (case find (\<lambda>r. deleted r \<noteq> None \<and> orm kw r) rows of
               None \<Rightarrow> revive_soft_deleted orm m kw rows = rows
             | Some r \<Rightarrow> (\<exists>j. j < length rows \<and> rows ! j = r
                  \<and> (\<forall>i. i < j \<longrightarrow> \<not> (deleted (rows ! i) \<noteq> None \<and> orm kw (rows ! i)))
                  \<and> revive_soft_deleted orm m kw rows = rows[j := r\<lparr> deleted := None \<rparr>]
                  \<and> (\<forall>i. i < length rows \<and> i \<noteq> j \<longrightarrow>
                        revive_soft_deleted orm m kw rows ! i = rows ! i)))
       else revive_soft_deleted orm m kw rows = rows)"
proof (cases "find (\<lambda>r. deleted r \<noteq> None \<and> orm kw r) rows")
  case None
  then show ?thesis
    by (simp add: update_or_create_def revive_soft_deleted_find [of orm, OF assms(1)])
next
  case (Some r)
  then obtain j where j: "j < length rows" "rows ! j = r"
    "\<forall>i<j. \<not> (deleted (rows ! i) \<noteq> None \<and> orm kw (rows ! i))"
    by (auto simp: find_Some_iff)
  have "save (r\<lparr> deleted := None \<rparr>) rows = rows[j := r\<lparr> deleted := None \<rparr>]"
    using assms(2) j(1,2) by (intro save_existing) simp_all
  with Some j show ?thesis
    by (auto simp: update_or_create_def revive_soft_deleted_find [of orm, OF assms(1)] intro!: exI[of _ j])
qed

theorem update_or_create_revives_at_most_one_witness:
  "(\<forall>r. example_orm [(''deleted'', NoneV)] r = (deleted r = None))
   \<and> distinct (map pk swatches)
   \<and> revive_soft_deleted example_orm (SafeDeleteManager None Swatch None)
        [(''color'', StrV ''green'')] swatches
     = [swatch 1 None ''a'' ''red'' [], swatch 2 None ''b'' ''green'' [1],
        swatch 3 (Some 6) ''c'' ''green'' [2], swatch 4 None ''d'' ''green'' []]"
proof -
  have null: "example_orm [(''deleted'', NoneV)] r = (deleted r = None)" for r
    by (rule example_orm_null_marker)
  have d: "distinct (map pk swatches)"
    by (simp add: swatches_def swatch_def)
  have green: "find (\<lambda>r. deleted r \<noteq> None \<and> example_orm [(''color'', StrV ''green'')] r)
      swatches = Some (swatch 2 (Some 5) ''b'' ''green'' [1])"
    by (simp add: swatches_def swatch_def example_orm_def entry_holds_def
        startswith_column_def column_value_def)
  have saved: "save ((swatch 2 (Some 5) ''b'' ''green'' [1])\<lparr> deleted := None \<rparr>) swatches
     = [swatch 1 None ''a'' ''red'' [], swatch 2 None ''b'' ''green'' [1],
        swatch 3 (Some 6) ''c'' ''green'' [2], swatch 4 None ''d'' ''green'' []]"
    by (simp add: save_def swatches_def swatch_def)
  have policy: "get_delete_policy (model (SafeDeleteManager None Swatch None))
      \<in> set get_soft_delete_policies"
    "has_unique_fields (model (SafeDeleteManager None Swatch None))"
    by (simp_all add: SafeDeleteManager_def Swatch_def get_delete_policy_def
        get_soft_delete_policies_def has_unique_fields_def)
  have revived: "revive_soft_deleted example_orm (SafeDeleteManager None Swatch None)
        [(''color'', StrV ''green'')] swatches
     = [swatch 1 None ''a'' ''red'' [], swatch 2 None ''b'' ''green'' [1],
        swatch 3 (Some 6) ''c'' ''green'' [2], swatch 4 None ''d'' ''green'' []]"
    unfolding revive_soft_deleted_find [of example_orm, OF null] green
    using policy saved by simp
  show ?thesis
    using null d revived
      update_or_create_revives_at_most_one
        [of example_orm swatches "\<lambda>(defaults :: unit) kw rows. rows"
          "SafeDeleteManager None Swatch None" "()" "[(''color'', StrV ''green'')]", OF null d]
    by simp
qed

section \<open>Deleting, undeleting and validating\<close>

text \<open>
  Claim C6. \<^verbatim>\<open>delete()\<close> on a record whose model class has the \<^verbatim>\<open>NO_DELETE\<close> policy
  fails with a policy-violation error, and the table is as it was: the record is neither
  removed nor marked deleted.
\<close>

theorem delete_no_delete_policy_fails:
  "get_delete_policy cls = NO_DELETE \<Longrightarrow>
     fst (delete cls now obj rows) = Inl PolicyViolation \<and> snd (delete cls now obj rows) = rows"
  by (simp add: delete_def)

theorem delete_no_delete_policy_fails_witness:
  "get_delete_policy VeryImportant = NO_DELETE
   \<and> delete VeryImportant 9 (named 1 None ''vip'') [named 1 None ''vip'', named 2 None ''other'']
     = (Inl PolicyViolation, [named 1 None ''vip'', named 2 None ''other''])"
proof -
  have p: "get_delete_policy VeryImportant = NO_DELETE"
    by (simp add: get_delete_policy_def VeryImportant_def)
  show ?thesis
    using p delete_no_delete_policy_fails
      [OF p, of 9 "named 1 None ''vip''" "[named 1 None ''vip'', named 2 None ''other'']"]
    by (simp add: prod_eq_iff)
qed

text \<open>
  Claim C7. For a stored record with a soft-delete policy, \<^verbatim>\<open>delete()\<close> succeeds and
  hides the record from the default query, and \<^verbatim>\<open>undelete()\<close> after it puts the record,
  with a null marker, back among the results of the default query. A record that was
  alive before the delete, and so among the default results, is there again exactly as
  it was.
\<close>

theorem undelete_after_delete_restores_visibility:
  assumes "get_delete_policy cls \<in> set get_soft_delete_policies" and "obj \<in> set rows"
  shows "fst (delete cls now obj rows) = Inr ()
    \<and> obj\<lparr> deleted := Some now \<rparr> \<in> set (snd (delete cls now obj rows))
    \<and> obj\<lparr> deleted := Some now \<rparr> \<notin>
         set (results orm (all (SafeDeleteManager qc cls u) Map.empty) (snd (delete cls now obj rows)))
    \<and> obj\<lparr> deleted := None \<rparr> \<in> set (results orm (all (SafeDeleteManager qc cls u) Map.empty)
         (undelete cls (obj\<lparr> deleted := Some now \<rparr>) (snd (delete cls now obj rows))))
    \<and> (deleted obj = None \<longrightarrow>
         obj \<in> set (results orm (all (SafeDeleteManager qc cls u) Map.empty) rows)
         \<and> obj \<in> set (results orm (all (SafeDeleteManager qc cls u) Map.empty)
             (undelete cls (obj\<lparr> deleted := Some now \<rparr>) (snd (delete cls now obj rows)))))"
proof -
  let ?d = "obj\<lparr> deleted := Some now \<rparr>"
  let ?rows1 = "snd (delete cls now obj rows)"
  have pol: "get_delete_policy cls = SOFT_DELETE \<or> get_delete_policy cls = SOFT_DELETE_CASCADE"
    using assms(1) by (auto simp: get_soft_delete_policies_def)
  have ok: "fst (delete cls now obj rows) = Inr ()"
    using pol by (auto simp: delete_def)
  have d1: "?d \<in> set ?rows1"
    using pol assms(2) by (auto simp: delete_def intro!: mark_mem pk_in_cascade)
  have "?d\<lparr> deleted := None \<rparr> \<in> set (mark pks None ?rows1)" if "pk ?d \<in> set pks" for pks
    using d1 that by (rule mark_mem)
  from this [of "[pk ?d]"] this [of "cascade ?rows1 ?d"] pk_in_cascade [of ?d ?rows1]
  have "?d\<lparr> deleted := None \<rparr> \<in> set (undelete cls ?d ?rows1)"
    unfolding undelete_def by simp
  then have restored: "obj\<lparr> deleted := None \<rparr> \<in> set (undelete cls ?d ?rows1)"
    by simp
  have alive: "obj \<in> set (undelete cls ?d ?rows1)" if "deleted obj = None"
  proof -
    from that have "obj\<lparr> deleted := None \<rparr> = obj"
      by simp
    with restored show ?thesis
      by simp
  qed
  show ?thesis
    using assms(2) ok d1 restored alive by (simp add: default_results)
qed

theorem undelete_after_delete_restores_visibility_witness:
  "get_delete_policy Swatch \<in> set get_soft_delete_policies
   \<and> swatch 1 None ''a'' ''red'' [] \<in> set swatches
   \<and> snd (delete Swatch 9 (swatch 1 None ''a'' ''red'' []) swatches)
     = [swatch 1 (Some 9) ''a'' ''red'' [], swatch 2 (Some 9) ''b'' ''green'' [1],
        swatch 3 (Some 9) ''c'' ''green'' [2], swatch 4 None ''d'' ''green'' []]
   \<and> swatch 1 None ''a'' ''red'' []
       \<in> set (results example_orm (all (SafeDeleteManager None Swatch None) Map.empty) swatches)
   \<and> swatch 1 (Some 9) ''a'' ''red'' []
       \<notin> set (results example_orm (all (SafeDeleteManager None Swatch None) Map.empty)
             (snd (delete Swatch 9 (swatch 1 None ''a'' ''red'' []) swatches)))
   \<and> swatch 1 None ''a'' ''red'' []
       \<in> set (results example_orm (all (SafeDeleteManager None Swatch None) Map.empty)
             (undelete Swatch (swatch 1 (Some 9) ''a'' ''red'' [])
               (snd (delete Swatch 9 (swatch 1 None ''a'' ''red'' []) swatches))))"
proof -
  have p: "get_delete_policy Swatch \<in> set get_soft_delete_policies"
    by (simp add: get_delete_policy_def Swatch_def get_soft_delete_policies_def)
  have m: "swatch 1 None ''a'' ''red'' [] \<in> set swatches"
    by (simp add: swatches_def)
  have s: "snd (delete Swatch 9 (swatch 1 None ''a'' ''red'' []) swatches)
     = [swatch 1 (Some 9) ''a'' ''red'' [], swatch 2 (Some 9) ''b'' ''green'' [1],
        swatch 3 (Some 9) ''c'' ''green'' [2], swatch 4 None ''d'' ''green'' []]"
    by (simp add: delete_def get_delete_policy_def Swatch_def mark_def cascade_def
        reachable.simps swatches_def swatch_def)
  show ?thesis
    using p m s undelete_after_delete_restores_visibility [OF p m, of 9 example_orm None None]
    by (simp add: swatch_def)
qed

text \<open>
  Claim C8. Uniqueness validation considers soft-deleted rows: validating a new record
  whose value in a unique field is that of a stored soft-deleted row fails with a
  validation error.
\<close>

theorem validate_unique_considers_soft_deleted:
  assumes "(f, True) \<in> set (meta_fields cls)" and "r \<in> set rows" and "deleted r \<noteq> None"
      and "map_of (attrs r) f = Some v" and "v \<noteq> NoneV" and "map_of new_attrs f = Some v"
  shows "validate_unique cls None new_attrs rows = Inl ValidationError"
proof -
  have "list_ex (\<lambda>r. Some (pk r) \<noteq> None \<and> map_of (attrs r) f = map_of new_attrs f) rows"
    using assms(2,4,6) by (auto simp: list_ex_iff)
  then have "list_ex (\<lambda>(f, unique). unique
            \<and> map_of new_attrs f \<noteq> None \<and> map_of new_attrs f \<noteq> Some NoneV
            \<and> list_ex (\<lambda>r. Some (pk r) \<noteq> None \<and> map_of (attrs r) f = map_of new_attrs f) rows)
          (meta_fields cls)"
    using assms(1,5,6) unfolding list_ex_iff [of _ "meta_fields cls"]
    by (intro bexI [of _ "(f, True)"]) auto
  then show ?thesis
    by (simp add: validate_unique_def)
qed

theorem validate_unique_considers_soft_deleted_witness:
  "(''name'', True) \<in> set (meta_fields Category)
   \<and> named 4 (Some 7) ''test'' \<in> set categories
   \<and> deleted (named 4 (Some 7) ''test'') \<noteq> None
   \<and> map_of (attrs (named 4 (Some 7) ''test'')) ''name'' = Some (StrV ''test'')
   \<and> validate_unique Category None [(''name'', StrV ''test'')] categories = Inl ValidationError"
proof -
  have f: "(''name'', True) \<in> set (meta_fields Category)"
    by (simp add: Category_def)
  have m: "named 4 (Some 7) ''test'' \<in> set categories"
    by (simp add: categories_def)
  have d: "deleted (named 4 (Some 7) ''test'') \<noteq> None"
    by (simp add: named_def)
  have a: "map_of (attrs (named 4 (Some 7) ''test'')) ''name'' = Some (StrV ''test'')"
    by (simp add: named_def)
  have v: "StrV ''test'' \<noteq> NoneV"
    by simp
  have n: "map_of [(''name'', StrV ''test'')] ''name'' = Some (StrV ''test'')"
    by simp
  show ?thesis
    using f m d a validate_unique_considers_soft_deleted [OF f m d a v n]
    by simp
qed

end
